theory Spec2Isabelle
  imports Complex_Main
begin

section \<open>Values\<close>

text \<open>
  A float64 cell of a pandas Series, as the API's decimal readings give it: a finite value, or
  \<open>NaN\<close>, which is also what pandas stores for a missing entry of a numeric column. Only
  comparisons and selections of such values are modelled (they are exact on floats); float
  arithmetic is not, and IEEE infinities are outside the model.
\<close>

datatype pyfloat = NaN | Fin real

type_synonym series = "pyfloat list"

text \<open>\<^verbatim>\<open>x >= 0\<close> and \<^verbatim>\<open>x > y\<close> on floats: false when an operand is NaN.\<close>

fun ge_zero :: "pyfloat \<Rightarrow> bool" where
  "ge_zero NaN = False"
| "ge_zero (Fin r) = (0 \<le> r)"

fun float_gt :: "pyfloat \<Rightarrow> pyfloat \<Rightarrow> bool" where
  "float_gt (Fin a) (Fin b) = (b < a)"
| "float_gt _ _ = False"

text \<open>\<^verbatim>\<open>Series.dropna()\<close>: the entries that are not missing, in order.\<close>

definition dropna :: "series \<Rightarrow> series" where
  "dropna ws = filter (\<lambda>x. x \<noteq> NaN) ws"

text \<open>\<^verbatim>\<open>ws[ws >= 0]\<close>: selection by the boolean mask.\<close>

definition mask_ge_zero :: "series \<Rightarrow> series" where
  "mask_ge_zero ws = filter ge_zero ws"

text \<open>
  \<^verbatim>\<open>Series.max()\<close> skips missing entries and is NaN on an empty series. Python's builtin
  \<^verbatim>\<open>max(a, b)\<close> keeps its first argument unless the second is greater.
\<close>

definition series_max :: "series \<Rightarrow> pyfloat" where
  "series_max ws =
     (case dropna ws of
        [] \<Rightarrow> NaN
      | x # xs \<Rightarrow> foldl (\<lambda>m y. if float_gt y m then y else m) x xs)"

definition py_max :: "pyfloat \<Rightarrow> pyfloat \<Rightarrow> pyfloat" where
  "py_max a b = (if float_gt b a then b else a)"

section \<open>Tables\<close>

text \<open>
  A pandas DataFrame, column by column. A column built from the JSON items holds the items'
  strings (\<open>None\<close> where an item lacks the key); \<^verbatim>\<open>pd.to_datetime\<close> makes it a datetime column
  (\<open>None\<close> is NaT) and \<^verbatim>\<open>pd.to_numeric\<close> a numeric one. The row index is not modelled
  (the source resets or ignores it); \<open>nrows\<close> is its length, which a table without columns still has.
\<close>

datatype column =
    Object "string option list"
  | Datetime "int option list"
  | Float64 series

record dataframe =
  nrows :: nat
  columns :: "(string \<times> column) list"

text \<open>One item of the response: a JSON object with string values, as a Python dict.\<close>

type_synonym item = "(string \<times> string) list"

text \<open>\<^verbatim>\<open>pd.DataFrame()\<close>.\<close>

definition empty_DataFrame :: dataframe where
  "empty_DataFrame = \<lparr>nrows = 0, columns = []\<rparr>"

text \<open>
  \<^verbatim>\<open>pd.DataFrame(items)\<close> for a list of dicts: one row per item, one column per key in the
  order the keys are first seen.
\<close>

definition first_seen :: "string list \<Rightarrow> string list" where
  "first_seen ks = rev (remdups (rev ks))"

definition DataFrame :: "item list \<Rightarrow> dataframe" where
  "DataFrame items =
     \<lparr>nrows = length items,
      columns = map (\<lambda>c. (c, Object (map (\<lambda>it. map_of it c) items)))
                  (first_seen (concat (map (map fst) items)))\<rparr>"

text \<open>
  \<^verbatim>\<open>df.empty\<close>: an axis of length 0. \<^verbatim>\<open>df.columns\<close>. \<^verbatim>\<open>df[c] = f(df[c])\<close> for a column
  \<open>c\<close> of the table.
\<close>

definition df_empty :: "dataframe \<Rightarrow> bool" where
  "df_empty df = (nrows df = 0 \<or> columns df = [])"

definition column_names :: "dataframe \<Rightarrow> string list" where
  "column_names df = map fst (columns df)"

definition update_column :: "dataframe \<Rightarrow> string \<Rightarrow> (column \<Rightarrow> column) \<Rightarrow> dataframe" where
  "update_column df c f =
     df\<lparr>columns := map (\<lambda>(n, col). if n = c then (n, f col) else (n, col)) (columns df)\<rparr>"

text \<open>Rows picked by position (\<open>order\<close> holds positions below \<open>nrows\<close>), and \<^verbatim>\<open>df.head()\<close>.\<close>

fun take_rows :: "nat list \<Rightarrow> column \<Rightarrow> column" where
  "take_rows order (Object xs) = Object (map (\<lambda>i. xs ! i) order)"
| "take_rows order (Datetime xs) = Datetime (map (\<lambda>i. xs ! i) order)"
| "take_rows order (Float64 xs) = Float64 (map (\<lambda>i. xs ! i) order)"

fun head_column :: "column \<Rightarrow> column" where
  "head_column (Object xs) = Object (take 5 xs)"
| "head_column (Datetime xs) = Datetime (take 5 xs)"
| "head_column (Float64 xs) = Float64 (take 5 xs)"

definition head :: "dataframe \<Rightarrow> dataframe" where
  "head df = \<lparr>nrows = min 5 (nrows df), columns = map (\<lambda>(n, col). (n, head_column col)) (columns df)\<rparr>"

text \<open>
  \<^verbatim>\<open>df.sort_values("tm").reset_index(drop=True)\<close> on a datetime column: the rows with a
  timestamp in ascending order, then the rows whose timestamp is NaT. Rows with equal
  timestamps keep their order here; pandas' default sort does not promise that, and nothing
  below depends on it. A column that is not a datetime column is not reached from the source.
\<close>

definition argsort_tm :: "int option list \<Rightarrow> nat list" where
  "argsort_tm ts =
     map fst (sort_key snd (concat (map (\<lambda>(i, t). case t of None \<Rightarrow> [] | Some v \<Rightarrow> [(i, v)])
                                        (zip [0..<length ts] ts))))
     @ concat (map (\<lambda>(i, t). case t of None \<Rightarrow> [i] | Some v \<Rightarrow> []) (zip [0..<length ts] ts))"

definition sort_values :: "dataframe \<Rightarrow> string \<Rightarrow> dataframe" where
  "sort_values df c =
     (case map_of (columns df) c of
        Some (Datetime ts) \<Rightarrow>
          df\<lparr>columns := map (\<lambda>(n, col). (n, take_rows (argsort_tm ts) col)) (columns df)\<rparr>
      | _ \<Rightarrow> df)"

section \<open>Errors, the libraries and the trace of a run\<close>

text \<open>
  \<open>InsufficientDataError\<close> is the error the specification names for an empty sample; no
  statement of the source raises it. \<open>LibraryError\<close> is an exception raised inside scipy's
  fit, \<open>TransportError\<close> one raised by the HTTP request (\<^verbatim>\<open>requests.get\<close>,
  \<^verbatim>\<open>raise_for_status\<close>, \<^verbatim>\<open>r.json\<close>), \<open>TypeError\<close> the comparison \<^verbatim>\<open>ws >= 0\<close> on a column
  that is not numeric. The source catches none of them.
\<close>

datatype error =
    InsufficientDataError
  | LibraryError string
  | TransportError string
  | TypeError

text \<open>
  The HTTP request the source sends and what comes back: a failure of the transport, or the
  parsed JSON body. The body is taken in its documented shape
  \<^verbatim>\<open>{response: {header: {resultCode}, body: {items: {item: [...]}}}}\<close>; the \<^verbatim>\<open>.get\<close> chains of
  the source read an absent key as \<open>None\<close> (the result code) or as the empty list (the items).
\<close>

record request =
  url :: string
  params :: "(string \<times> string) list"
  timeout :: nat

datatype reply =
    Http_failure string
  | Http_json "string option" "item list"

text \<open>
  The library routines the source calls, as parameters of the model: the HTTP round trip,
  the two pandas parsers with \<^verbatim>\<open>errors="coerce"\<close> on one string, \<^verbatim>\<open>Series.mean\<close> (float
  arithmetic), and \<^verbatim>\<open>scipy.stats.weibull_min.fit(data, floc=...)\<close>, a numerical optimiser on
  floats that raises (\<open>Inl\<close>, with the exception's text) or returns (shape, loc, scale).
\<close>

type_synonym fit_fn = "series \<Rightarrow> pyfloat \<Rightarrow> string + (pyfloat \<times> pyfloat \<times> pyfloat)"

record env =
  requests_get :: "request \<Rightarrow> reply"
  to_datetime :: "string \<Rightarrow> int option"
  to_numeric :: "string \<Rightarrow> pyfloat"
  series_mean :: "series \<Rightarrow> pyfloat"
  weibull_min_fit :: fit_fn

text \<open>
  What a run does besides returning: the console lines, the library calls that matter to the
  properties below, the files written. The text of a console line is not modelled, only which
  line it is and the values it shows. The matplotlib calls are recorded as made; that they
  return is taken for granted, as is that the two files can be written.
\<close>

datatype event =
    Info_request string
  | Warn_api_header "string option"
  | Error_no_data
  | Info_columns "string list"
  | To_csv string dataframe
  | Info_csv_saved string nat
  | Error_no_ws_column
  | Print_head dataframe
  | Warn_few_samples
  | Call_weibull_min_fit series pyfloat
  | Result_params pyfloat pyfloat
  | Warn_nothing_to_plot
  | Plt_figure
  | Plt_hist series nat bool
  | Plt_plot_weibull_pdf pyfloat pyfloat nat pyfloat pyfloat
  | Plt_decorate
  | Plt_savefig string nat
  | Info_graph_saved string
  | Info_mean pyfloat
  | Next_steps

section \<open>fit\_weibull\<close>

text \<open>
  \<^verbatim>\<open>
  def fit_weibull(ws):
      ws = ws.dropna()
      ws = ws[ws >= 0]
      if len(ws) < 100:
          print("[WARN] ...")
      k, loc, c = weibull_min.fit(ws.values, floc=0)
      return k, c
  \<close>
  The first argument is the library's fit. The result is the trace and either the exception
  that left the function or the pair.
\<close>

definition fit_weibull :: "fit_fn \<Rightarrow> series \<Rightarrow> event list \<times> (error + pyfloat \<times> pyfloat)" where
  "fit_weibull fit ws0 =
     (let ws = dropna ws0;
          ws = mask_ge_zero ws;
          out = (if length ws < 100 then [Warn_few_samples] else []);
          out = out @ [Call_weibull_min_fit ws (Fin 0)]
      in case fit ws (Fin 0) of
           Inl msg \<Rightarrow> (out, Inl (LibraryError msg))
         | Inr (k, loc, c) \<Rightarrow> (out, Inr (k, c)))"

text \<open>
  The specification's WindSpeedSample: the entries that are present (non-missing) and
  non-negative. This definition follows the specification's words, to be compared with the two
  filtering statements of the source.
\<close>

definition usable_sample :: "series \<Rightarrow> series" where
  "usable_sample ws = filter (\<lambda>x. x \<noteq> NaN \<and> ge_zero x) ws"

text \<open>
  Two stand-ins for the library's fit, used only to run the model at concrete inputs: one that
  raises on every sample and one that returns a fixed shape and scale with the location it was
  given. Neither is a model of scipy.
\<close>

definition raising_fit :: fit_fn where
  "raising_fit xs floc = Inl ''fit failed''"

definition fixed_fit :: fit_fn where
  "fixed_fit xs floc = Inr (Fin 2, floc, Fin 6)"

section \<open>plot\_hist\_with\_weibull\<close>

text \<open>
  \<^verbatim>\<open>
  def plot_hist_with_weibull(ws, k, c, out_png):
      ws = ws.dropna()
      ws = ws[ws >= 0]
      if ws.empty:
          print("[WARN] ...")
          return
      plt.figure(figsize=(8, 5))
      n, bins, _ = plt.hist(ws.values, bins=40, density=True, alpha=0.5, label=...)
      x = np.linspace(0, max(ws.max(), 15), 400)
      pdf = weibull_min.pdf(x, k, scale=c)
      plt.plot(x, pdf, linewidth=2, label=...)
      ... title, labels, legend, grid, tight_layout ...
      plt.savefig(out_png, dpi=150)
      print(f"[INFO] ...: {out_png}")
  \<close>
  \<open>Plt_hist data bins density\<close> is the histogram call; \<open>Plt_plot_weibull_pdf lo hi n k c\<close> is the
  curve of the Weibull density with shape \<open>k\<close> and scale \<open>c\<close> at \<open>n\<close> evenly spaced points from
  \<open>lo\<close> to \<open>hi\<close>; \<open>Plt_savefig name dpi\<close> writes the figure to the file \<open>name\<close>.
\<close>

definition plot_hist_with_weibull :: "series \<Rightarrow> pyfloat \<Rightarrow> pyfloat \<Rightarrow> string \<Rightarrow> event list" where
  "plot_hist_with_weibull ws0 k c out_png =
     (let ws = dropna ws0;
          ws = mask_ge_zero ws
      in if ws = [] then [Warn_nothing_to_plot]
         else [Plt_figure,
               Plt_hist ws 40 True,
               Plt_plot_weibull_pdf (Fin 0) (py_max (series_max ws) (Fin 15)) 400 k c,
               Plt_decorate,
               Plt_savefig out_png 150,
               Info_graph_saved out_png])"

section \<open>fetch\_asos\_hourly\<close>

text \<open>
  \<^verbatim>\<open>pd.to_datetime(col, errors="coerce")\<close> and \<^verbatim>\<open>pd.to_numeric(col, errors="coerce")\<close> on a
  column of strings; a missing entry becomes NaT or NaN. The source applies them to the columns
  that \<^verbatim>\<open>pd.DataFrame(items)\<close> built, which hold strings; a column of another kind is left as
  it is.
\<close>

fun to_datetime_column :: "env \<Rightarrow> column \<Rightarrow> column" where
  "to_datetime_column e (Object xs) =
     Datetime (map (\<lambda>s. case s of None \<Rightarrow> None | Some v \<Rightarrow> to_datetime e v) xs)"
| "to_datetime_column e col = col"

fun to_numeric_column :: "env \<Rightarrow> column \<Rightarrow> column" where
  "to_numeric_column e (Object xs) =
     Float64 (map (\<lambda>s. case s of None \<Rightarrow> NaN | Some v \<Rightarrow> to_numeric e v) xs)"
| "to_numeric_column e col = col"

text \<open>
  \<^verbatim>\<open>
  def fetch_asos_hourly(api_key, stn_id, start_dt, start_hh, end_dt, end_hh):
      base_url = "http://apis.data.go.kr/1360000/AsosHourlyInfoService/getWthrDataList"
      params = {...}
      print("[INFO] ...", base_url)
      r = requests.get(base_url, params=params, timeout=60)
      r.raise_for_status()
      j = r.json()
      if j.get("response", {}).get("header", {}).get("resultCode") != "00":
          print("[WARN] API header:", ...)
      items = j.get("response", {}).get("body", {}).get("items", {}).get("item", [])
      if not items:
          print("[ERROR] ...")
          return pd.DataFrame()
      df = pd.DataFrame(items)
      print("[INFO] ...", list(df.columns))
      if "tm" in df.columns:
          df["tm"] = pd.to_datetime(df["tm"], errors="coerce")
          df = df.sort_values("tm").reset_index(drop=True)
      for col in ["ws", "wd", "ta", "hm"]:
          if col in df.columns:
              df[col] = pd.to_numeric(df[col], errors="coerce")
      return df
  \<close>
\<close>

text \<open>The request of the first lines: \<^verbatim>\<open>base_url\<close>, \<^verbatim>\<open>params\<close> and the timeout of 60 seconds.\<close>

definition base_url :: string where
  "base_url = ''http://apis.data.go.kr/1360000/AsosHourlyInfoService/getWthrDataList''"

definition asos_request ::
  "string \<Rightarrow> string \<Rightarrow> string \<Rightarrow> string \<Rightarrow> string \<Rightarrow> string \<Rightarrow> request" where
  "asos_request api_key stn_id start_dt start_hh end_dt end_hh =
     \<lparr>url = base_url,
      params = [(''serviceKey'', api_key),
                (''dataType'', ''JSON''),
                (''dataCd'', ''ASOS''),
                (''dateCd'', ''HR''),
                (''startDt'', start_dt),
                (''startHh'', start_hh),
                (''endDt'', end_dt),
                (''endHh'', end_hh),
                (''stnIds'', stn_id)],
      timeout = 60\<rparr>"

definition fetch_asos_hourly ::
  "env \<Rightarrow> string \<Rightarrow> string \<Rightarrow> string \<Rightarrow> string \<Rightarrow> string \<Rightarrow> string
     \<Rightarrow> event list \<times> (error + dataframe)" where
  "fetch_asos_hourly e api_key stn_id start_dt start_hh end_dt end_hh =
     (let out = [Info_request base_url]
      in case requests_get e (asos_request api_key stn_id start_dt start_hh end_dt end_hh) of
           Http_failure msg \<Rightarrow> (out, Inl (TransportError msg))
         | Http_json code items \<Rightarrow>
             (let out = out @ (if code \<noteq> Some ''00'' then [Warn_api_header code] else [])
              in if items = [] then (out @ [Error_no_data], Inr empty_DataFrame)
                 else
                   (let df = DataFrame items;
                        out = out @ [Info_columns (column_names df)];
                        df = (if ''tm'' \<in> set (column_names df)
                              then sort_values (update_column df ''tm'' (to_datetime_column e)) ''tm''
                              else df);
                        df = foldl (\<lambda>d col. if col \<in> set (column_names d)
                                             then update_column d col (to_numeric_column e)
                                             else d)
                               df [''ws'', ''wd'', ''ta'', ''hm'']
                    in (out, Inr df))))"

section \<open>main\<close>

text \<open>
  The module constants the run is configured by. The source's \<^verbatim>\<open>API_KEY\<close> is a placeholder the
  user replaces, so it is left open here; the other five are the source's values.
\<close>

record config =
  API_KEY :: string
  STATION_ID :: string
  START_DATE :: string
  START_HH :: string
  END_DATE :: string
  END_HH :: string

definition CONFIG :: "string \<Rightarrow> config" where
  "CONFIG key =
     \<lparr>API_KEY = key, STATION_ID = ''108'', START_DATE = ''20240101'', START_HH = ''00'',
      END_DATE = ''20241231'', END_HH = ''23''\<rparr>"

text \<open>
  How the process ends: \<^verbatim>\<open>main\<close> returns, \<^verbatim>\<open>sys.exit(n)\<close> is called, or an exception leaves
  \<^verbatim>\<open>main\<close> uncaught. The interpreter turns these into the exit status 0, \<open>n\<close> and 1.
\<close>

datatype outcome = Returned | Exited int | Raised error

fun exit_status :: "outcome \<Rightarrow> int" where
  "exit_status Returned = 0"
| "exit_status (Exited n) = n"
| "exit_status (Raised err) = 1"

text \<open>The two file names, \<^verbatim>\<open>f"asos_{STATION_ID}_{START_DATE}_{END_DATE}.csv"\<close> and its PNG twin.\<close>

definition out_csv :: "config \<Rightarrow> string" where
  "out_csv cfg = ''asos_'' @ STATION_ID cfg @ ''_'' @ START_DATE cfg @ ''_'' @ END_DATE cfg @ ''.csv''"

definition out_png :: "config \<Rightarrow> string" where
  "out_png cfg =
     ''asos_'' @ STATION_ID cfg @ ''_'' @ START_DATE cfg @ ''_'' @ END_DATE cfg @ ''_weibull.png''"

text \<open>
  \<^verbatim>\<open>df["ws"]\<close> handed to \<^verbatim>\<open>fit_weibull\<close>: a numeric column is the float series; on a column of
  another kind the comparison \<^verbatim>\<open>ws >= 0\<close> raises.
\<close>

fun as_series :: "column \<Rightarrow> error + series" where
  "as_series (Float64 xs) = Inr xs"
| "as_series col = Inl TypeError"

text \<open>
  \<^verbatim>\<open>
  def main():
      df = fetch_asos_hourly(API_KEY, STATION_ID, START_DATE, START_HH, END_DATE, END_HH)
      if df.empty:
          sys.exit(1)
      out_csv = f"asos_{STATION_ID}_{START_DATE}_{END_DATE}.csv"
      df.to_csv(out_csv, index=False, encoding="utf-8-sig")
      print(f"[INFO] ...: {out_csv} (rows={len(df)})")
      if "ws" not in df.columns:
          print("[ERROR] ..."); print("..."); print(df.head())
          sys.exit(1)
      k, c = fit_weibull(df["ws"])
      print(f"[RESULT] ... k={k:.4f}, ... c={c:.4f}")
      out_png = f"asos_{STATION_ID}_{START_DATE}_{END_DATE}_weibull.png"
      plot_hist_with_weibull(df["ws"], k, c, out_png)
      mean_ws = df["ws"].dropna().mean()
      print(f"[INFO] ...: {mean_ws:.3f} m/s")
      print(...)   # the list of next steps
  \<close>
\<close>

definition main :: "config \<Rightarrow> env \<Rightarrow> event list \<times> outcome" where
  "main cfg e =
     (case fetch_asos_hourly e (API_KEY cfg) (STATION_ID cfg) (START_DATE cfg) (START_HH cfg)
             (END_DATE cfg) (END_HH cfg) of
        (out, Inl err) \<Rightarrow> (out, Raised err)
      | (out, Inr df) \<Rightarrow>
          if df_empty df then (out, Exited 1)
          else
            (let out = out @ [To_csv (out_csv cfg) df, Info_csv_saved (out_csv cfg) (nrows df)]
             in case map_of (columns df) ''ws'' of
                  None \<Rightarrow> (out @ [Error_no_ws_column, Print_head (head df)], Exited 1)
                | Some col \<Rightarrow>
                    (case as_series col of
                       Inl err \<Rightarrow> (out, Raised err)
                     | Inr ws \<Rightarrow>
                         (case fit_weibull (weibull_min_fit e) ws of
                            (out2, Inl err) \<Rightarrow> (out @ out2, Raised err)
                          | (out2, Inr (k, c)) \<Rightarrow>
                              (let out = out @ out2 @ [Result_params k c];
                                   out = out @ plot_hist_with_weibull ws k c (out_png cfg);
                                   mean_ws = series_mean e (dropna ws);
                                   out = out @ [Info_mean mean_ws, Next_steps]
                               in (out, Returned))))))"

text \<open>The names of the files a trace writes, in order.\<close>

fun file_written :: "event \<Rightarrow> string list" where
  "file_written (To_csv name df) = [name]"
| "file_written (Plt_savefig name dpi) = [name]"
| "file_written ev = []"

definition files_written :: "event list \<Rightarrow> string list" where
  "files_written evs = concat (map file_written evs)"

text \<open>
  Stand-ins for the libraries, used only to run the model at concrete inputs: an HTTP layer that
  answers every request with a given reply, parsers that read a few fixed strings, a mean that
  is not computed. None is a model of the library.
\<close>

definition stub_env :: "reply \<Rightarrow> fit_fn \<Rightarrow> env" where
  "stub_env r f =
     \<lparr>requests_get = (\<lambda>req. r),
      to_datetime = (\<lambda>s. if s = ''2024-01-01 00:00'' then Some 0
                          else if s = ''2024-01-01 01:00'' then Some 3600 else None),
      to_numeric = (\<lambda>s. if s = ''1.5'' then Fin (3 / 2)
                         else if s = ''4'' then Fin 4
                         else if s = ''-1'' then Fin (- 1) else NaN),
      series_mean = (\<lambda>xs. NaN),
      weibull_min_fit = f\<rparr>"

section \<open>The usable sample\<close>

lemma source_filter_is_usable_sample: "mask_ge_zero (dropna ws) = usable_sample ws"
  by (simp add: mask_ge_zero_def dropna_def usable_sample_def conj_commute)

lemma usable_sample_idem: "usable_sample (usable_sample ws) = usable_sample ws"
  by (simp add: usable_sample_def)

lemma dropna_usable_sample: "dropna (usable_sample ws) = usable_sample ws"
  by (induction ws) (simp_all add: usable_sample_def dropna_def)

lemma fit_weibull_unfold:
  "fit_weibull lib ws =
     ((if length (usable_sample ws) < 100 then [Warn_few_samples] else [])
        @ [Call_weibull_min_fit (usable_sample ws) (Fin 0)],
      case lib (usable_sample ws) (Fin 0) of
        Inl msg \<Rightarrow> Inl (LibraryError msg)
      | Inr (k, loc, c) \<Rightarrow> Inr (k, c))"
  by (simp add: fit_weibull_def Let_def source_filter_is_usable_sample split: sum.splits)

lemma foldl_float_max:
  "\<exists>m. foldl (\<lambda>m y. if float_gt y m then y else m) (Fin a) xs = Fin m
       \<and> Fin m \<in> set (Fin a # xs)
       \<and> (\<forall>r. Fin r \<in> set (Fin a # xs) \<longrightarrow> r \<le> m)"
proof (induction xs arbitrary: a)
  case Nil
  show ?case by simp
next
  case (Cons y ys)
  show ?case
  proof (cases y)
    case NaN
    with Cons.IH [of a] show ?thesis by auto
  next
    case (Fin b)
    show ?thesis
    proof (cases "a < b")
      case True
      with Fin Cons.IH [of b] show ?thesis by fastforce
    next
      case False
      with Fin Cons.IH [of a] show ?thesis by fastforce
    qed
  qed
qed

lemma series_max_usable:
  assumes "usable_sample ws \<noteq> []"
  shows "\<exists>m. series_max (usable_sample ws) = Fin m
           \<and> Fin m \<in> set (usable_sample ws)
           \<and> (\<forall>r. Fin r \<in> set (usable_sample ws) \<longrightarrow> r \<le> m)"
proof -
  from assms obtain x xs where eq: "usable_sample ws = x # xs" by (cases "usable_sample ws") auto
  then have "x \<in> set (usable_sample ws)" by simp
  then have "x \<noteq> NaN" by (simp add: usable_sample_def)
  then obtain a where x: "x = Fin a" by (cases x) auto
  have "dropna (Fin a # xs) = Fin a # xs"
    using dropna_usable_sample [of ws] by (simp add: eq x)
  then have "series_max (usable_sample ws) = foldl (\<lambda>m y. if float_gt y m then y else m) (Fin a) xs"
    by (simp add: series_max_def eq x)
  with foldl_float_max [of a xs] show ?thesis
    unfolding eq x by simp
qed

lemma py_max_Fin: "py_max (Fin m) (Fin b) = Fin (max m b)"
  by (simp add: py_max_def max_def)

lemma plot_unfold:
  "plot_hist_with_weibull ws k c png =
     (if usable_sample ws = [] then [Warn_nothing_to_plot]
      else [Plt_figure,
            Plt_hist (usable_sample ws) 40 True,
            Plt_plot_weibull_pdf (Fin 0) (py_max (series_max (usable_sample ws)) (Fin 15)) 400 k c,
            Plt_decorate,
            Plt_savefig png 150,
            Info_graph_saved png])"
  by (simp add: plot_hist_with_weibull_def Let_def source_filter_is_usable_sample)

section \<open>Properties of fit\_weibull\<close>

text \<open>
  C1, as the code has it. For a sample whose usable subsequence is empty, and a library fit that
  raises on the empty array, \<open>fit_weibull\<close> fails: it returns no pair of parameters, neither
  fitted nor default. It has no guard of its own, though: before it fails it prints the
  few-samples warning and calls the library's fit on the empty array with the location fixed at
  0, and the error that leaves it is the library's, not \<open>InsufficientDataError\<close>.
\<close>

theorem fit_weibull_empty_sample:
  assumes "usable_sample ws = []" and "lib [] (Fin 0) = Inl msg"
  shows "fit_weibull lib ws =
           ([Warn_few_samples, Call_weibull_min_fit [] (Fin 0)], Inl (LibraryError msg))
       \<and> (\<nexists>p. snd (fit_weibull lib ws) = Inr p)
       \<and> snd (fit_weibull lib ws) \<noteq> Inl InsufficientDataError"
  using assms by (simp add: fit_weibull_unfold)

theorem fit_weibull_empty_sample_witness:
  "usable_sample [Fin (- 2), NaN, NaN] = []
   \<and> raising_fit [] (Fin 0) = Inl ''fit failed''
   \<and> fit_weibull raising_fit [Fin (- 2), NaN, NaN] =
       ([Warn_few_samples, Call_weibull_min_fit [] (Fin 0)], Inl (LibraryError ''fit failed''))
   \<and> (\<nexists>p. snd (fit_weibull raising_fit [Fin (- 2), NaN, NaN]) = Inr p)"
proof -
  have h1: "usable_sample [Fin (- 2), NaN, NaN] = []"
    by (simp add: usable_sample_def)
  have h2: "raising_fit [] (Fin 0) = Inl ''fit failed''"
    by (simp add: raising_fit_def)
  show ?thesis
    using h1 h2
      fit_weibull_empty_sample [of "[Fin (- 2), NaN, NaN]" raising_fit "''fit failed''", OF h1 h2]
    by blast
qed

text \<open>
  C1 as the claim states it fails: on the sample of one missing and one negative entry, with a
  library that raises, the warning is printed, the library is called, and the error that leaves
  \<open>fit_weibull\<close> is the library's, not \<open>InsufficientDataError\<close>.
\<close>

theorem fit_weibull_empty_sample_counterexample:
  "usable_sample [NaN, Fin (- 1)] = []
   \<and> fit_weibull raising_fit [NaN, Fin (- 1)] =
       ([Warn_few_samples, Call_weibull_min_fit [] (Fin 0)], Inl (LibraryError ''fit failed''))
   \<and> fit_weibull raising_fit [NaN, Fin (- 1)] \<noteq> ([], Inl InsufficientDataError)"
  by (simp add: fit_weibull_unfold usable_sample_def raising_fit_def)

text \<open>
  C3. The result of \<open>fit_weibull\<close>, trace included, is the one it gives on the sample with the
  missing and negative entries stripped beforehand; the array handed to the library is the
  usable sample, and the few-samples warning is printed exactly when the usable sample has
  fewer than 100 entries.
\<close>

theorem fit_weibull_ignores_invalid_entries:
  "fit_weibull lib ws = fit_weibull lib (usable_sample ws)
   \<and> Call_weibull_min_fit (usable_sample ws) (Fin 0) \<in> set (fst (fit_weibull lib ws))
   \<and> (Warn_few_samples \<in> set (fst (fit_weibull lib ws)) \<longleftrightarrow> length (usable_sample ws) < 100)"
  by (simp add: fit_weibull_unfold usable_sample_idem)

text \<open>
  C4. With between 1 and 99 usable entries \<open>fit_weibull\<close> prints the warning and goes on: it
  calls the library on the usable sample and returns the shape and scale of the library's
  answer, by the same projection as for a sample \<open>big\<close> of 100 or more usable entries, where
  nothing is printed. An error leaves \<open>fit_weibull\<close> only when the library raises.
\<close>

theorem fit_weibull_small_sample:
  assumes "0 < length (usable_sample ws)" and "length (usable_sample ws) < 100"
  shows "fst (fit_weibull lib ws) = [Warn_few_samples, Call_weibull_min_fit (usable_sample ws) (Fin 0)]
       \<and> snd (fit_weibull lib ws) =
           (case lib (usable_sample ws) (Fin 0) of
              Inl msg \<Rightarrow> Inl (LibraryError msg)
            | Inr (k, loc, c) \<Rightarrow> Inr (k, c))
       \<and> (100 \<le> length (usable_sample big) \<longrightarrow>
            fst (fit_weibull lib big) = [Call_weibull_min_fit (usable_sample big) (Fin 0)]
          \<and> snd (fit_weibull lib big) =
              (case lib (usable_sample big) (Fin 0) of
                 Inl msg \<Rightarrow> Inl (LibraryError msg)
               | Inr (k, loc, c) \<Rightarrow> Inr (k, c)))
       \<and> ((\<exists>err. snd (fit_weibull lib ws) = Inl err)
            \<longleftrightarrow> (\<exists>msg. lib (usable_sample ws) (Fin 0) = Inl msg))"
  using assms by (auto simp: fit_weibull_unfold split: sum.splits)

theorem fit_weibull_small_sample_witness:
  "0 < length (usable_sample [NaN, Fin (- 1), Fin 3, Fin 0])
   \<and> length (usable_sample [NaN, Fin (- 1), Fin 3, Fin 0]) < 100
   \<and> 100 \<le> length (usable_sample (replicate 100 (Fin 3)))
   \<and> fit_weibull fixed_fit [NaN, Fin (- 1), Fin 3, Fin 0] =
       ([Warn_few_samples, Call_weibull_min_fit [Fin 3, Fin 0] (Fin 0)], Inr (Fin 2, Fin 6))
   \<and> fit_weibull fixed_fit (replicate 100 (Fin 3)) =
       ([Call_weibull_min_fit (replicate 100 (Fin 3)) (Fin 0)], Inr (Fin 2, Fin 6))"
proof -
  have u: "usable_sample [NaN, Fin (- 1), Fin 3, Fin 0] = [Fin 3, Fin 0]"
    by (simp add: usable_sample_def)
  have b: "usable_sample (replicate 100 (Fin 3)) = replicate 100 (Fin 3)"
    by (simp add: usable_sample_def)
  have h1: "0 < length (usable_sample [NaN, Fin (- 1), Fin 3, Fin 0])"
    by (simp add: u)
  have h2: "length (usable_sample [NaN, Fin (- 1), Fin 3, Fin 0]) < 100"
    by (simp add: u)
  have h3: "100 \<le> length (usable_sample (replicate 100 (Fin 3)))"
    by (simp add: b)
  from fit_weibull_small_sample [OF h1 h2, of fixed_fit "replicate 100 (Fin 3)"] h3
  have "fit_weibull fixed_fit [NaN, Fin (- 1), Fin 3, Fin 0] =
          ([Warn_few_samples, Call_weibull_min_fit [Fin 3, Fin 0] (Fin 0)], Inr (Fin 2, Fin 6))"
    and "fit_weibull fixed_fit (replicate 100 (Fin 3)) =
          ([Call_weibull_min_fit (replicate 100 (Fin 3)) (Fin 0)], Inr (Fin 2, Fin 6))"
    by (simp_all add: u b fixed_fit_def prod_eq_iff)
  with h1 h2 h3 show ?thesis by simp
qed

section \<open>Properties of plot\_hist\_with\_weibull\<close>

text \<open>
  C7. When the usable sample is not empty, the plotting step draws the histogram of the usable
  wind speeds with 40 bins as a density, draws the Weibull density of the given shape and scale
  at 400 points from 0 to \<open>max m 15\<close>, where \<open>m\<close> is the largest usable wind speed, and saves the
  figure to the file it was given; \<open>main\<close> gives it a name that ends in \<open>.png\<close>.
\<close>

theorem plot_hist_with_weibull_renders:
  assumes "usable_sample ws \<noteq> []"
  shows "\<exists>m. Fin m \<in> set (usable_sample ws)
           \<and> (\<forall>r. Fin r \<in> set (usable_sample ws) \<longrightarrow> r \<le> m)
           \<and> plot_hist_with_weibull ws k c png =
               [Plt_figure,
                Plt_hist (usable_sample ws) 40 True,
                Plt_plot_weibull_pdf (Fin 0) (Fin (max m 15)) 400 k c,
                Plt_decorate,
                Plt_savefig png 150,
                Info_graph_saved png]
           \<and> (\<exists>stem. out_png cfg = stem @ ''.png'')"
proof -
  from series_max_usable [OF assms] obtain m where
    m: "series_max (usable_sample ws) = Fin m" "Fin m \<in> set (usable_sample ws)"
       "\<forall>r. Fin r \<in> set (usable_sample ws) \<longrightarrow> r \<le> m" by blast
  have p: "plot_hist_with_weibull ws k c png =
               [Plt_figure,
                Plt_hist (usable_sample ws) 40 True,
                Plt_plot_weibull_pdf (Fin 0) (Fin (max m 15)) 400 k c,
                Plt_decorate,
                Plt_savefig png 150,
                Info_graph_saved png]"
    using assms by (simp add: plot_unfold m(1) py_max_Fin)
  have "out_png cfg =
          (''asos_'' @ STATION_ID cfg @ ''_'' @ START_DATE cfg @ ''_'' @ END_DATE cfg @ ''_weibull'')
            @ ''.png''"
    by (simp add: out_png_def)
  then have "\<exists>stem. out_png cfg = stem @ ''.png''" by blast
  with m(2,3) p show ?thesis by blast
qed

theorem plot_hist_with_weibull_renders_witness:
  "usable_sample [NaN, Fin (- 1), Fin 3, Fin 20, Fin 0] \<noteq> []
   \<and> plot_hist_with_weibull [NaN, Fin (- 1), Fin 3, Fin 20, Fin 0] (Fin 2) (Fin 6) ''w.png'' =
       [Plt_figure,
        Plt_hist [Fin 3, Fin 20, Fin 0] 40 True,
        Plt_plot_weibull_pdf (Fin 0) (Fin 20) 400 (Fin 2) (Fin 6),
        Plt_decorate,
        Plt_savefig ''w.png'' 150,
        Info_graph_saved ''w.png'']"
proof -
  have h: "usable_sample [NaN, Fin (- 1), Fin 3, Fin 20, Fin 0] \<noteq> []"
    by (simp add: usable_sample_def)
  have u: "usable_sample [NaN, Fin (- 1), Fin 3, Fin 20, Fin 0] = [Fin 3, Fin 20, Fin 0]"
    by (simp add: usable_sample_def)
  from plot_hist_with_weibull_renders [OF h, of "Fin 2" "Fin 6" "''w.png''"] obtain m where
    m: "Fin m \<in> set (usable_sample [NaN, Fin (- 1), Fin 3, Fin 20, Fin 0])"
       "\<forall>r. Fin r \<in> set (usable_sample [NaN, Fin (- 1), Fin 3, Fin 20, Fin 0]) \<longrightarrow> r \<le> m"
    and p: "plot_hist_with_weibull [NaN, Fin (- 1), Fin 3, Fin 20, Fin 0] (Fin 2) (Fin 6) ''w.png'' =
               [Plt_figure,
                Plt_hist (usable_sample [NaN, Fin (- 1), Fin 3, Fin 20, Fin 0]) 40 True,
                Plt_plot_weibull_pdf (Fin 0) (Fin (max m 15)) 400 (Fin 2) (Fin 6),
                Plt_decorate,
                Plt_savefig ''w.png'' 150,
                Info_graph_saved ''w.png'']" by blast
  from m have "m = 20" unfolding u by auto
  with p h show ?thesis unfolding u by simp
qed

text \<open>
  C9. When the usable sample is empty, the plotting step prints its warning and returns: the
  trace holds nothing else, so no figure is drawn and no file is written, whatever file name
  was given.
\<close>

theorem plot_hist_with_weibull_empty:
  assumes "usable_sample ws = []"
  shows "plot_hist_with_weibull ws k c png = [Warn_nothing_to_plot]
       \<and> files_written (plot_hist_with_weibull ws k c png) = []"
  using assms by (simp add: plot_unfold files_written_def)

theorem plot_hist_with_weibull_empty_witness:
  "usable_sample [NaN, Fin (- 1)] = []
   \<and> plot_hist_with_weibull [NaN, Fin (- 1)] (Fin 2) (Fin 6) ''w.png'' = [Warn_nothing_to_plot]
   \<and> files_written (plot_hist_with_weibull [NaN, Fin (- 1)] (Fin 2) (Fin 6) ''w.png'') = []"
proof -
  have h: "usable_sample [NaN, Fin (- 1)] = []"
    by (simp add: usable_sample_def)
  show ?thesis
    using h plot_hist_with_weibull_empty [OF h, of "Fin 2" "Fin 6" "''w.png''"] by blast
qed

section \<open>The table that fetch\_asos\_hourly builds\<close>

lemma column_names_update_column: "column_names (update_column df c f) = column_names df"
  by (auto simp: column_names_def update_column_def)


lemma nrows_update_column: "nrows (update_column df c f) = nrows df"
  by (simp add: update_column_def)





lemma take_rows_Object: "take_rows order (Object xs) = col \<Longrightarrow> \<exists>ys. col = Object ys"
  by auto





lemma in_column_names_iff: "k \<in> set (column_names df) \<longleftrightarrow> map_of (columns df) k \<noteq> None"
  by (simp add: column_names_def map_of_eq_None_iff)

lemma numeric_step_names:
  "column_names (if col \<in> set (column_names d) then update_column d col f else d) = column_names d"
  by (simp add: column_names_update_column)

lemma numeric_step_nrows:
  "nrows (if col \<in> set (column_names d) then update_column d col f else d) = nrows d"
  by (simp add: nrows_update_column)








section \<open>Properties of main\<close>

lemma main_unfold:
  assumes "fetch_asos_hourly e (API_KEY cfg) (STATION_ID cfg) (START_DATE cfg) (START_HH cfg)
             (END_DATE cfg) (END_HH cfg) = (out, res)"
  shows "main cfg e =
     (case res of
        Inl err \<Rightarrow> (out, Raised err)
      | Inr df \<Rightarrow>
          if df_empty df then (out, Exited 1)
          else
            (case map_of (columns df) ''ws'' of
               None \<Rightarrow>
                 (out @ [To_csv (out_csv cfg) df, Info_csv_saved (out_csv cfg) (nrows df),
                         Error_no_ws_column, Print_head (head df)],
                  Exited 1)
             | Some col \<Rightarrow>
                 (case as_series col of
                    Inl err \<Rightarrow>
                      (out @ [To_csv (out_csv cfg) df, Info_csv_saved (out_csv cfg) (nrows df)],
                       Raised err)
                  | Inr ws \<Rightarrow>
                      (case weibull_min_fit e (usable_sample ws) (Fin 0) of
                         Inl msg \<Rightarrow>
                           (out @ [To_csv (out_csv cfg) df, Info_csv_saved (out_csv cfg) (nrows df)]
                              @ fst (fit_weibull (weibull_min_fit e) ws),
                            Raised (LibraryError msg))
                       | Inr (k, loc, c) \<Rightarrow>
                           (out @ [To_csv (out_csv cfg) df, Info_csv_saved (out_csv cfg) (nrows df)]
                              @ fst (fit_weibull (weibull_min_fit e) ws)
                              @ [Result_params k c]
                              @ plot_hist_with_weibull ws k c (out_png cfg)
                              @ [Info_mean (series_mean e (dropna ws)), Next_steps],
                            Returned)))))"
  using assms
  by (simp add: main_def Let_def fit_weibull_unfold split: sum.splits option.splits prod.splits)


lemma fetch_trace_events:
  "ev \<in> set (fst (fetch_asos_hourly e a b c d f g)) \<Longrightarrow>
     (\<exists>u. ev = Info_request u) \<or> (\<exists>h. ev = Warn_api_header h) \<or> ev = Error_no_data
       \<or> (\<exists>cs. ev = Info_columns cs)"
  by (auto simp: fetch_asos_hourly_def Let_def split: reply.splits if_splits)


lemma files_written_Nil: "files_written [] = []"
  by (simp add: files_written_def)

lemma files_written_Cons: "files_written (ev # evs) = file_written ev @ files_written evs"
  by (simp add: files_written_def)

lemma files_written_append: "files_written (xs @ ys) = files_written xs @ files_written ys"
  by (simp add: files_written_def)

lemma fetch_writes_no_file: "files_written (fst (fetch_asos_hourly e a b c d f g)) = []"
proof -
  have "file_written ev = []" if "ev \<in> set (fst (fetch_asos_hourly e a b c d f g))" for ev
    using fetch_trace_events [OF that] by auto
  then show ?thesis by (simp add: files_written_def)
qed







lemma main_ws_absent:
  assumes "fetch_asos_hourly e (API_KEY cfg) (STATION_ID cfg) (START_DATE cfg) (START_HH cfg)
             (END_DATE cfg) (END_HH cfg) = (out, Inr df)"
    and "\<not> df_empty df" and "map_of (columns df) ''ws'' = None"
  shows "main cfg e =
           (out @ [To_csv (out_csv cfg) df, Info_csv_saved (out_csv cfg) (nrows df),
                   Error_no_ws_column, Print_head (head df)],
            Exited 1)"
  using assms(2,3) by (simp add: main_unfold [OF assms(1)])














text \<open>
  C10. When the fetched table is not empty and has no \<open>ws\<close> column, the run writes the CSV file
  of the table first, then prints the error and the first rows, and exits with status 1; the
  trace ends there, so the CSV file is the one file written and nothing touches it afterwards.
\<close>

theorem main_missing_ws_keeps_csv:
  assumes "snd (fetch_asos_hourly e (API_KEY cfg) (STATION_ID cfg) (START_DATE cfg) (START_HH cfg)
                  (END_DATE cfg) (END_HH cfg)) = Inr df"
    and "\<not> df_empty df" and "''ws'' \<notin> set (column_names df)"
  shows "fst (main cfg e) =
           fst (fetch_asos_hourly e (API_KEY cfg) (STATION_ID cfg) (START_DATE cfg) (START_HH cfg)
                  (END_DATE cfg) (END_HH cfg))
             @ [To_csv (out_csv cfg) df, Info_csv_saved (out_csv cfg) (nrows df),
                Error_no_ws_column, Print_head (head df)]
       \<and> snd (main cfg e) = Exited 1
       \<and> exit_status (snd (main cfg e)) = 1
       \<and> files_written (fst (main cfg e)) = [out_csv cfg]"
proof -
  obtain out res where f0: "fetch_asos_hourly e (API_KEY cfg) (STATION_ID cfg) (START_DATE cfg)
      (START_HH cfg) (END_DATE cfg) (END_HH cfg) = (out, res)"
    by (cases "fetch_asos_hourly e (API_KEY cfg) (STATION_ID cfg) (START_DATE cfg)
      (START_HH cfg) (END_DATE cfg) (END_HH cfg)")
  with assms(1) have f: "fetch_asos_hourly e (API_KEY cfg) (STATION_ID cfg) (START_DATE cfg)
      (START_HH cfg) (END_DATE cfg) (END_HH cfg) = (out, Inr df)" by simp
  from assms(3) have none: "map_of (columns df) ''ws'' = None"
    by (simp add: in_column_names_iff)
  have o: "files_written out = []"
    using fetch_writes_no_file [of e "API_KEY cfg" "STATION_ID cfg" "START_DATE cfg"
      "START_HH cfg" "END_DATE cfg" "END_HH cfg"] by (simp add: f)
  have m: "main cfg e =
           (out @ [To_csv (out_csv cfg) df, Info_csv_saved (out_csv cfg) (nrows df),
                   Error_no_ws_column, Print_head (head df)], Exited 1)"
    by (rule main_ws_absent [OF f assms(2) none])
  show ?thesis
    by (simp add: m f files_written_append files_written_Cons files_written_Nil o)
qed

theorem main_missing_ws_keeps_csv_witness:
  "snd (fetch_asos_hourly
          (stub_env (Http_json (Some ''00'')
             [[(''tm'', ''2024-01-01 01:00''), (''ta'', ''4'')],
              [(''tm'', ''2024-01-01 00:00''), (''ta'', ''-1'')]]) fixed_fit)
          ''key'' ''108'' ''20240101'' ''00'' ''20241231'' ''23'')
     = Inr \<lparr>nrows = 2, columns = [(''tm'', Datetime [Some 0, Some 3600]),
                                  (''ta'', Float64 [Fin (- 1), Fin 4])]\<rparr>
   \<and> main (CONFIG ''key'')
          (stub_env (Http_json (Some ''00'')
             [[(''tm'', ''2024-01-01 01:00''), (''ta'', ''4'')],
              [(''tm'', ''2024-01-01 00:00''), (''ta'', ''-1'')]]) fixed_fit)
     = ([Info_request base_url,
         Info_columns [''tm'', ''ta''],
         To_csv ''asos_108_20240101_20241231.csv''
           \<lparr>nrows = 2, columns = [(''tm'', Datetime [Some 0, Some 3600]),
                                  (''ta'', Float64 [Fin (- 1), Fin 4])]\<rparr>,
         Info_csv_saved ''asos_108_20240101_20241231.csv'' 2,
         Error_no_ws_column,
         Print_head \<lparr>nrows = 2, columns = [(''tm'', Datetime [Some 0, Some 3600]),
                                           (''ta'', Float64 [Fin (- 1), Fin 4])]\<rparr>],
        Exited 1)
   \<and> files_written (fst (main (CONFIG ''key'')
          (stub_env (Http_json (Some ''00'')
             [[(''tm'', ''2024-01-01 01:00''), (''ta'', ''4'')],
              [(''tm'', ''2024-01-01 00:00''), (''ta'', ''-1'')]]) fixed_fit)))
     = [''asos_108_20240101_20241231.csv'']"
proof -
  let ?cfg = "CONFIG ''key''"
  let ?e = "stub_env (Http_json (Some ''00'')
             [[(''tm'', ''2024-01-01 01:00''), (''ta'', ''4'')],
              [(''tm'', ''2024-01-01 00:00''), (''ta'', ''-1'')]]) fixed_fit"
  let ?df = "\<lparr>nrows = 2, columns = [(''tm'', Datetime [Some 0, Some 3600]),
                                  (''ta'', Float64 [Fin (- 1), Fin 4])]\<rparr>"
  have c: "API_KEY ?cfg = ''key''" "STATION_ID ?cfg = ''108''" "START_DATE ?cfg = ''20240101''"
    "START_HH ?cfg = ''00''" "END_DATE ?cfg = ''20241231''" "END_HH ?cfg = ''23''"
    by (simp_all add: CONFIG_def)
  have f: "fetch_asos_hourly ?e ''key'' ''108'' ''20240101'' ''00'' ''20241231'' ''23''
             = ([Info_request base_url, Info_columns [''tm'', ''ta'']], Inr ?df)"
    by code_simp
  have h1: "snd (fetch_asos_hourly ?e (API_KEY ?cfg) (STATION_ID ?cfg) (START_DATE ?cfg)
                  (START_HH ?cfg) (END_DATE ?cfg) (END_HH ?cfg)) = Inr ?df"
    unfolding c by (simp add: f)
  have h2: "\<not> df_empty ?df"
    by (simp add: df_empty_def)
  have h3: "''ws'' \<notin> set (column_names ?df)"
    by (simp add: column_names_def)
  have hd: "head ?df = ?df"
    by (simp add: head_def)
  have csv: "out_csv ?cfg = ''asos_108_20240101_20241231.csv''"
    by (simp add: out_csv_def CONFIG_def)
  from main_missing_ws_keeps_csv [OF h1 h2 h3]
  have "fst (main ?cfg ?e) =
          [Info_request base_url, Info_columns [''tm'', ''ta''],
           To_csv ''asos_108_20240101_20241231.csv'' ?df,
           Info_csv_saved ''asos_108_20240101_20241231.csv'' 2,
           Error_no_ws_column, Print_head ?df]"
    and "snd (main ?cfg ?e) = Exited 1"
    and "files_written (fst (main ?cfg ?e)) = [''asos_108_20240101_20241231.csv'']"
    unfolding c by (simp_all add: f hd csv files_written_Cons files_written_Nil)
  then have "main ?cfg ?e =
          ([Info_request base_url, Info_columns [''tm'', ''ta''],
           To_csv ''asos_108_20240101_20241231.csv'' ?df,
           Info_csv_saved ''asos_108_20240101_20241231.csv'' 2,
           Error_no_ws_column, Print_head ?df], Exited 1)"
    and "files_written (fst (main ?cfg ?e)) = [''asos_108_20240101_20241231.csv'']"
    by (simp_all add: prod_eq_iff)
  with f show ?thesis by simp
qed

end
